theory Spec2Isabelle
  imports Complex_Main "HOL-Library.Word"
begin

section \<open>The ArduSub remote-operation task (Control/UAV/Ardupilot/RemoteOperation/Task.cpp)\<close>

text \<open>
  The task translates operator-intent events (named joystick axes and buttons) into the
  pulse widths of eleven RC channels and sends them to the autopilot as MAVLink packets;
  it also consumes the autopilot's parameter replies.

  Conventions of the embedding.
  \<^item> The member variables of \<open>Task\<close> and the file-level array \<open>rc_pwm\<close> form one
    record; every member function takes the record and returns the updated one.
  \<^item> A C++ \<open>float\<close> is the \<open>real\<close> it denotes. Comparison and assignment are
    exact; the result of \<open>+\<close>, \<open>-\<close>, \<open>*\<close> and \<open>/\<close> on \<open>float\<close>s, and a
    decimal constant, is rounded to single precision by \<open>binary32\<close>. The conversion
    from an \<open>int\<close> is exact below \<open>2^24\<close> in magnitude, which covers every pulse
    width, and is written without rounding. Infinities are not modelled, and NaN appears
    only as the default of an axis lookup, as \<open>None\<close>.
  \<^item> The packets handed to the socket are recorded, in order, in the field \<open>sent\<close>.
    A write is taken to succeed: the fault path of \<open>sendData\<close> (reconnecting) belongs
    to the transport and is not part of the model.
  \<^item> Logging calls are left out.
\<close>

subsection \<open>Single-precision arithmetic\<close>

text \<open>
  IEEE 754 binary32 with round-to-nearest, ties to even: a value is rounded to a
  multiple of its unit in the last place, which is \<open>2^(e - 23)\<close> for the exponent
  \<open>e\<close> of the value's binade, \<open>e\<close> between \<open>-126\<close> (also for the subnormal
  values and zero) and 127.
\<close>

definition round_half_even :: "real \<Rightarrow> int" where
  "round_half_even y =
     (let f = \<lfloor>y\<rfloor>; r = y - real_of_int f in
      if r < 1 / 2 then f else if 1 / 2 < r then f + 1 else if even f then f else f + 1)"

text \<open>
  The largest power of two that is at most \<open>a\<close>: found upwards from \<open>p = 1\<close> in at
  most 127 doublings, or downwards from \<open>p = 1/2\<close> in at most 125 halvings.
\<close>

fun binade_up :: "nat \<Rightarrow> real \<Rightarrow> real \<Rightarrow> real" where
  "binade_up 0 p a = p"
| "binade_up (Suc n) p a = (if 2 * p \<le> a then binade_up n (2 * p) a else p)"

fun binade_down :: "nat \<Rightarrow> real \<Rightarrow> real \<Rightarrow> real" where
  "binade_down 0 p a = p"
| "binade_down (Suc n) p a = (if p \<le> a then p else binade_down n (p / 2) a)"

definition binade :: "real \<Rightarrow> real" where
  "binade x = (if 1 \<le> \<bar>x\<bar> then binade_up 127 1 \<bar>x\<bar> else binade_down 125 (1 / 2) \<bar>x\<bar>)"

definition binary32 :: "real \<Rightarrow> real" where
  "binary32 x = (let u = binade x / 2 ^ 23 in u * real_of_int (round_half_even (x / u)))"

subsection \<open>Constants\<close>

definition PWM_MAX :: real where "PWM_MAX = 1900"
definition PWM_MIN :: real where "PWM_MIN = 1100"
definition PWM_IDLE :: real where "PWM_IDLE = 1500"
definition GAIN_MAX :: real where "GAIN_MAX = 1"
definition GAIN_MIN :: real where "GAIN_MIN = binary32 (1 / 10)"
definition TRIM_MAX :: real where "TRIM_MAX = 200"
definition TRIM_MIN :: real where "TRIM_MIN = - 200"
definition TRIM_STEP :: int where "TRIM_STEP = 10"

definition axis :: "string list" where
  "axis = [''Pitch'', ''Roll'', ''Throttle'', ''Heading'', ''Forward'', ''Lateral'']"

definition js_params_id :: "string list" where
  "js_params_id = [''JS_CAM_TILT_STEP'', ''JS_GAIN_MAX'', ''JS_GAIN_MIN'',
                   ''JS_GAIN_STEPS'', ''JS_LIGHTS_STEPS'', ''JS_THR_GAIN'']"

text \<open>
  The message type identifiers come from the MAVLink headers
  (mavlink/ardupilotmega/mavlink.h), which are not among the sources; the values are
  those of the MAVLink common message set.
\<close>

definition MAVLINK_MSG_ID_SYSTEM_TIME :: nat where "MAVLINK_MSG_ID_SYSTEM_TIME = 2"
definition MAVLINK_MSG_ID_PARAM_VALUE :: nat where "MAVLINK_MSG_ID_PARAM_VALUE = 22"
definition MAVLINK_MSG_ID_RC_CHANNELS :: nat where "MAVLINK_MSG_ID_RC_CHANNELS = 65"

text \<open>The enumeration \<open>RC_INPUT\<close>: the index of each channel in \<open>rc_pwm\<close>.\<close>

definition Pitch :: nat where "Pitch = 0"
definition Roll :: nat where "Roll = 1"
definition Throttle :: nat where "Throttle = 2"
definition Heading :: nat where "Heading = 3"
definition Forward :: nat where "Forward = 4"
definition Lateral :: nat where "Lateral = 5"
definition Camera_Pan :: nat where "Camera_Pan = 6"
definition Camera_Tilt :: nat where "Camera_Tilt = 7"
definition Lights_1_Level :: nat where "Lights_1_Level = 8"
definition Lights_2_Level :: nat where "Lights_2_Level = 9"
definition Video_Switch :: nat where "Video_Switch = 10"

subsection \<open>Conversions between \<open>int\<close> and \<open>float\<close>\<close>

definition float_of_int :: "int \<Rightarrow> real" where
  "float_of_int i = real_of_int i"

text \<open>The conversion of a \<open>float\<close> to an \<open>int\<close> drops the fractional part.\<close>

definition int_of_float :: "real \<Rightarrow> int" where
  "int_of_float x = (if 0 \<le> x then \<lfloor>x\<rfloor> else \<lceil>x\<rceil>)"

text \<open>
  The same conversion for a value that comes off the wire and may be any \<open>float\<close>:
  the result is a 32-bit \<open>int\<close>. Where the value without its fraction does not fit,
  the conversion is undefined in C++; the model takes what the conversion instruction
  of the x86 yields there, the smallest \<open>int\<close>.
\<close>

definition INT_MIN :: int where "INT_MIN = - (2 ^ 31)"
definition INT_MAX :: int where "INT_MAX = 2 ^ 31 - 1"

definition int32_of_float :: "real \<Rightarrow> int" where
  "int32_of_float x =
     (if INT_MIN \<le> int_of_float x \<and> int_of_float x \<le> INT_MAX then int_of_float x
      else INT_MIN)"

subsection \<open>Data\<close>

text \<open>
  Modelled from the spec: the struct \<open>MAVLink::RadioChannel\<close> is declared in
  DUNE/Utils/MAVLink.hpp, which is not among the sources. The fields are those the task
  reads and writes, and those of the spec's ChannelCalibration.
\<close>

record RadioChannel =
  val_max :: real
  val_min :: real
  val_neutral :: real
  pwm_max :: real
  pwm_min :: real
  pwm_neutral :: real
  reverse :: bool

text \<open>The struct \<open>Arguments\<close>, without the address and port of the link.\<close>

record Arguments =
  gain_step :: int
  rc :: "RadioChannel list"

datatype MAV_STATE =
  MAV_STATE_UNINIT | MAV_STATE_BOOT | MAV_STATE_STANDBY | MAV_STATE_ACTIVE | MAV_STATE_POWEROFF

text \<open>
  Modelled from the spec: the mode identifiers \<open>MAVLink::SUB_MODE_*\<close> are declared in
  DUNE/Utils/MAVLink.hpp; the task passes them through as opaque values.
\<close>

datatype SUB_MODE = SUB_MODE_STABILIZE | SUB_MODE_DEPTH_HOLD | SUB_MODE_POS_HOLD | SUB_MODE_MANUAL

text \<open>
  The outbound packets, one constructor for each \<open>mavlink_msg_*_pack\<close> call of the task,
  with the arguments the task passes: the sender's system and component identifiers, then
  the fields of the message.
\<close>

datatype packet =
    RC_CHANNELS_OVERRIDE nat nat nat nat "16 word list"
  | PARAM_REQUEST_LIST nat nat nat nat
  | PARAM_REQUEST_READ nat nat nat nat string int
  | PARAM_SET nat nat nat nat string real
  | CHANGE_OPERATOR_CONTROL nat nat nat nat nat nat
  | SET_MODE nat nat nat nat SUB_MODE
  | COMMAND_ARM_DISARM nat int
  | HEARTBEAT nat nat MAV_STATE

text \<open>
  An inbound message as the parser delivers it: its type identifier, and its payload as
  \<open>mavlink_msg_param_value_decode\<close> reads it into a \<open>mavlink_param_value_t\<close>.
  Of that struct the model keeps \<open>param_value\<close>, the array \<open>char param_id[16]\<close>
  and the byte \<open>param_type\<close> that follows it in memory. \<open>param_id\<close> holds 16
  characters: a shorter name is followed by NUL characters, a name of 16 characters
  has no terminator.
\<close>

record mavlink_param_value_t =
  param_value :: real
  param_id :: string
  param_type :: char

record mavlink_message_t =
  msgid :: nat
  payload :: mavlink_param_value_t

text \<open>
  \<open>PktHandler\<close> is a pointer to a member function of the task: one constructor for
  each handler. \<open>m_mlh\<close> maps a message type to its handler; \<open>None\<close> is the null
  pointer that \<open>m_mlh[msgid]\<close> yields for a type with no entry.
\<close>

datatype PktHandler = Task_handleParams | Task_handleSysTime | Task_handleRC

record Task =
  m_args :: Arguments
  m_mlh :: "nat \<rightharpoonup> PktHandler"
  m_gain :: real
  m_thr_gain :: real
  m_lights_step :: int
  m_cam_steps :: int
  m_pitch_trim :: real
  m_roll_trim :: real
  m_sysid :: nat
  m_targetid :: nat
  m_sys_status :: MAV_STATE
  m_comms :: bool
  m_gcs :: int
  rc_pwm :: "int list"
  sent :: "packet list"

text \<open>
  Modelled from the spec: the class \<open>TupleList\<close> (DUNE's parser of the
  \<open>key=value;...\<close> text of an event) is not among the sources. An event is the
  flattened key-to-value map of the spec; \<open>tl_get_int\<close> is \<open>tl.get(key, 0)\<close> on a
  button, with the default for a missing key, and \<open>tl_get_float\<close> is
  \<open>tl.get(key, NAN)\<close> on an axis, where \<open>None\<close> is the NaN that \<open>isNaN\<close> tests for.
\<close>

record TupleList =
  buttons :: "string \<rightharpoonup> int"
  axes :: "string \<rightharpoonup> real"

definition tl_get_int :: "TupleList \<Rightarrow> string \<Rightarrow> int \<Rightarrow> int" where
  "tl_get_int tup key defval = (case buttons tup key of None \<Rightarrow> defval | Some v \<Rightarrow> v)"

definition tl_get_float :: "TupleList \<Rightarrow> string \<Rightarrow> real option" where
  "tl_get_float tup key = axes tup key"

subsection \<open>Construction\<close>

text \<open>
  The constructor's initialiser list. \<open>rc_pwm\<close> is a file-level \<open>int\<close> array with no
  initialiser, so it starts as zeros; \<open>m_thr_gain\<close> has no initialiser and is never
  read, it is given the value 0. The configured arguments are the constructor's
  parameter; \<open>default_rc\<close> holds the defaults of the "RC n MAX/MIN/Neutral" options.
\<close>

definition Task_new :: "Arguments \<Rightarrow> Task" where
  "Task_new args =
     \<lparr> m_args = args,
       m_mlh = [MAVLINK_MSG_ID_PARAM_VALUE \<mapsto> Task_handleParams,
                MAVLINK_MSG_ID_SYSTEM_TIME \<mapsto> Task_handleSysTime,
                MAVLINK_MSG_ID_RC_CHANNELS \<mapsto> Task_handleRC],
       m_gain = binary32 0.20, m_thr_gain = 0, m_lights_step = 100, m_cam_steps = 50,
       m_pitch_trim = 0, m_roll_trim = 0, m_sysid = 254, m_targetid = 1,
       m_sys_status = MAV_STATE_UNINIT, m_comms = False, m_gcs = 1,
       rc_pwm = replicate 11 0, sent = [] \<rparr>"

definition channel_cfg :: "real \<Rightarrow> real \<Rightarrow> real \<Rightarrow> RadioChannel" where
  "channel_cfg vmax vmin vneutral =
     \<lparr> val_max = vmax, val_min = vmin, val_neutral = vneutral,
       pwm_max = 0, pwm_min = 0, pwm_neutral = 0, reverse = False \<rparr>"

definition default_rc :: "RadioChannel list" where
  "default_rc =
     [channel_cfg 180 (- 180) 0, channel_cfg 180 (- 180) 0, channel_cfg 1000 (- 1000) 0,
      channel_cfg 180 (- 180) 90, channel_cfg 1000 (- 1000) 0, channel_cfg 1000 (- 1000) 0]
     @ replicate 5 (channel_cfg 0 0 0)"

definition default_args :: Arguments where
  "default_args = \<lparr> gain_step = 10, rc = default_rc \<rparr>"

subsection \<open>Sending\<close>

text \<open>\<open>sendData\<close>: nothing is written while the link is down.\<close>

definition sendData :: "packet \<Rightarrow> Task \<Rightarrow> Task" where
  "sendData p t = (if \<not> m_comms t then t else t\<lparr>sent := sent t @ [p]\<rparr>)"

text \<open>The pack function takes each channel as a \<open>uint16_t\<close>.\<close>

definition u16 :: "int \<Rightarrow> 16 word" where
  "u16 i = word_of_int i"

definition actuate :: "Task \<Rightarrow> Task" where
  "actuate t =
     sendData (RC_CHANNELS_OVERRIDE (m_sysid t) 1 (m_targetid t) 0
       [u16 (rc_pwm t ! 0), u16 (rc_pwm t ! 1), u16 (rc_pwm t ! 2), u16 (rc_pwm t ! 3),
        u16 (rc_pwm t ! 4), u16 (rc_pwm t ! 5), u16 (rc_pwm t ! 6), u16 (rc_pwm t ! 7)]) t"

definition idle :: "Task \<Rightarrow> Task" where
  "idle t =
     actuate (t\<lparr>rc_pwm :=
       fold (\<lambda>channel pwm. pwm[channel := int_of_float PWM_IDLE]) [0..<11] (rc_pwm t)\<rparr>)"

definition disarm :: "Task \<Rightarrow> Task" where
  "disarm t = sendData (COMMAND_ARM_DISARM (m_targetid t) 0) t"

definition arm :: "Task \<Rightarrow> Task" where
  "arm t = sendData (COMMAND_ARM_DISARM (m_targetid t) 1) t"

definition sendHeartbeat :: "Task \<Rightarrow> Task" where
  "sendHeartbeat t = sendData (HEARTBEAT (m_sysid t) 1 (m_sys_status t)) t"

definition changeMode :: "SUB_MODE \<Rightarrow> Task \<Rightarrow> Task" where
  "changeMode mode t = sendData (SET_MODE (m_sysid t) 1 (m_targetid t) 1 mode) t"

definition param_request_read :: "string \<Rightarrow> Task \<Rightarrow> Task" where
  "param_request_read name t =
     sendData (PARAM_REQUEST_READ (m_sysid t) 1 (m_targetid t) 0 name (- 1)) t"

definition requestParams :: "Task \<Rightarrow> Task" where
  "requestParams t =
     param_request_read ''SYSID_MYGCS'' (fold param_request_read js_params_id t)"

definition requestGCSParam :: "Task \<Rightarrow> Task" where
  "requestGCSParam t = param_request_read ''SYSID_MYGCS'' t"

definition setParamByName :: "string \<Rightarrow> real \<Rightarrow> Task \<Rightarrow> Task" where
  "setParamByName name v t = sendData (PARAM_SET 255 0 (m_targetid t) 1 name v) t"

definition handshake :: "Task \<Rightarrow> Task" where
  "handshake t =
     setParamByName ''FS_GCS_ENABLE'' 3
       (sendData (PARAM_REQUEST_LIST (m_sysid t) 1 (m_targetid t) 0) t)"

text \<open>
  \<open>openConnection\<close>: \<open>ok\<close> tells whether the sockets could be set up; if not, the
  exception handler marks the link as down.
\<close>

definition openConnection :: "bool \<Rightarrow> Task \<Rightarrow> Task" where
  "openConnection ok t =
     (if ok then handshake (requestGCSParam (t\<lparr>m_comms := True\<rparr>))
      else t\<lparr>m_comms := False\<rparr>)"

definition onResourceAcquisition :: "bool \<Rightarrow> Task \<Rightarrow> Task" where
  "onResourceAcquisition ok t =
     (let chans = map (\<lambda>c. c\<lparr>pwm_max := PWM_MAX, pwm_min := PWM_MIN,
                               pwm_neutral := PWM_IDLE, reverse := False\<rparr>) (rc (m_args t));
          t1 = openConnection ok (t\<lparr>m_args := (m_args t)\<lparr>rc := chans\<rparr>\<rparr>)
      in t1\<lparr>m_sys_status := MAV_STATE_BOOT\<rparr>)"

definition disableControl :: "Task \<Rightarrow> Task" where
  "disableControl t =
     (let t1 = idle t;
          t2 = sendData (CHANGE_OPERATOR_CONTROL (m_sysid t1) 1 (m_targetid t1) 1 0 0) t1
      in setParamByName ''SYSID_MYGCS'' (float_of_int (m_gcs t2)) t2)"

text \<open>\<open>consume(const IMC::Teleoperation*)\<close>, up to the request to the control loops.\<close>

definition consume_Teleoperation :: "Task \<Rightarrow> Task" where
  "consume_Teleoperation t =
     (let t1 = t\<lparr>m_sys_status := MAV_STATE_ACTIVE\<rparr>;
          t2 = setParamByName ''SYSID_MYGCS'' (real (m_sysid t1)) t1;
          t3 = sendData (CHANGE_OPERATOR_CONTROL (m_sysid t2) 1 (m_targetid t2) 0 0 0) t2;
          t4 = requestParams t3;
          t5 = changeMode SUB_MODE_MANUAL t4;
          t6 = arm t5
      in idle t6)"

definition consume_TeleoperationDone :: "Task \<Rightarrow> Task" where
  "consume_TeleoperationDone t = disableControl (t\<lparr>m_sys_status := MAV_STATE_STANDBY\<rparr>)"

definition isReversibleAxis :: "nat \<Rightarrow> bool" where
  "isReversibleAxis channel =
     (if channel = Forward \<or> channel = Lateral \<or> channel = Throttle \<or> channel = Heading
      then True else False)"

subsection \<open>The translation of an operator-intent event: \<open>onRemoteActions\<close>\<close>

text \<open>
  \<open>MAVLink::mapRC2PWM\<close> is defined in DUNE/Utils/MAVLink.hpp, which is not among the
  sources: the mapper is a parameter of the model, a function from a channel's
  calibration and the scaled input to the pulse width stored in \<open>rc_pwm\<close>.
\<close>

type_synonym mapper = "RadioChannel \<Rightarrow> real \<Rightarrow> int"

definition set_reverse :: "nat \<Rightarrow> bool \<Rightarrow> Task \<Rightarrow> Task" where
  "set_reverse channel b t =
     t\<lparr>m_args := (m_args t)\<lparr>rc := (rc (m_args t))[channel :=
                                   (rc (m_args t) ! channel)\<lparr>reverse := b\<rparr>]\<rparr>\<rparr>"

definition set_pwm :: "nat \<Rightarrow> int \<Rightarrow> Task \<Rightarrow> Task" where
  "set_pwm channel v t = t\<lparr>rc_pwm := (rc_pwm t)[channel := v]\<rparr>"

text \<open>The gain buttons: \<open>GainDown\<close> is looked at only when \<open>GainUP\<close> is not 1.\<close>

definition gain_buttons :: "TupleList \<Rightarrow> Task \<Rightarrow> Task" where
  "gain_buttons tup t =
     (if tl_get_int tup ''GainUP'' 0 = 1 then
        t\<lparr>m_gain := min (binary32 (m_gain t
                    + binary32 (float_of_int (gain_step (m_args t)) / 100))) GAIN_MAX\<rparr>
      else if tl_get_int tup ''GainDown'' 0 = 1 then
        t\<lparr>m_gain := max (binary32 (m_gain t
                    - binary32 (float_of_int (gain_step (m_args t)) / 100))) GAIN_MIN\<rparr>
      else t)"

text \<open>The body of the loop over the six axes, for one channel.\<close>

definition axis_channel :: "mapper \<Rightarrow> TupleList \<Rightarrow> nat \<Rightarrow> Task \<Rightarrow> Task" where
  "axis_channel mapRC2PWM tup channel t =
     (case tl_get_float tup (axis ! channel) of
        Some v \<Rightarrow>
          (let val = binary32 (v * m_gain t) in
           if isReversibleAxis channel then
             (let t1 = set_reverse channel False t
              in set_pwm channel (mapRC2PWM (rc (m_args t1) ! channel) val) t1)
           else
             (let t1 = (if val \<le> val_neutral (rc (m_args t) ! channel)
                        then set_reverse channel True t else set_reverse channel False t)
              in set_pwm channel (mapRC2PWM (rc (m_args t1) ! channel) val) t1))
      | None \<Rightarrow> set_pwm channel (int_of_float PWM_IDLE) (set_reverse channel False t))"

definition axis_channels :: "mapper \<Rightarrow> TupleList \<Rightarrow> Task \<Rightarrow> Task" where
  "axis_channels mapRC2PWM tup t = fold (axis_channel mapRC2PWM tup) [0..<6] t"

text \<open>
  The camera-tilt buttons. The sum of the two \<open>int\<close>s is converted to \<open>float\<close>,
  bounded on one side, and converted back on assignment.
\<close>

definition tilt_buttons :: "TupleList \<Rightarrow> Task \<Rightarrow> Task" where
  "tilt_buttons tup t =
     (if tl_get_int tup ''TiltUP'' 0 = 1 then
        (let newV = float_of_int (rc_pwm t ! Camera_Tilt + m_cam_steps t);
             newV = min newV PWM_MAX
         in set_pwm Camera_Tilt (int_of_float newV) t)
      else if tl_get_int tup ''TiltDown'' 0 = 1 then
        (let newV = float_of_int (rc_pwm t ! Camera_Tilt - m_cam_steps t);
             newV = max newV PWM_MIN
         in set_pwm Camera_Tilt (int_of_float newV) t)
      else if tl_get_int tup ''Center'' 0 = 1 then
        set_pwm Camera_Tilt (int_of_float PWM_IDLE) t
      else t)"

definition light_buttons :: "TupleList \<Rightarrow> Task \<Rightarrow> Task" where
  "light_buttons tup t =
     (if tl_get_int tup ''LightBrighter'' 0 = 1 then
        (let newV = float_of_int (rc_pwm t ! Lights_1_Level + m_lights_step t);
             newV = min newV PWM_MAX
         in set_pwm Lights_2_Level (int_of_float newV)
              (set_pwm Lights_1_Level (int_of_float newV) t))
      else if tl_get_int tup ''LightDimmer'' 0 = 1 then
        (let newV = float_of_int (rc_pwm t ! Lights_1_Level - m_lights_step t);
             newV = max newV PWM_MIN
         in set_pwm Lights_2_Level (int_of_float newV)
              (set_pwm Lights_1_Level (int_of_float newV) t))
      else t)"

text \<open>The four trim buttons are tested one after the other.\<close>

definition trim_buttons :: "TupleList \<Rightarrow> Task \<Rightarrow> Task" where
  "trim_buttons tup t =
     (let t1 = (if tl_get_int tup ''PitchForward'' 0 = 1
                then t\<lparr>m_pitch_trim :=
                       min (binary32 (m_pitch_trim t + float_of_int TRIM_STEP)) TRIM_MAX\<rparr>
                else t);
          t2 = (if tl_get_int tup ''PitchBackward'' 0 = 1
                then t1\<lparr>m_pitch_trim :=
                       max (binary32 (m_pitch_trim t1 - float_of_int TRIM_STEP)) TRIM_MIN\<rparr>
                else t1);
          t3 = (if tl_get_int tup ''RollRight'' 0 = 1
                then t2\<lparr>m_roll_trim :=
                       min (binary32 (m_roll_trim t2 + float_of_int TRIM_STEP)) TRIM_MAX\<rparr>
                else t2)
      in if tl_get_int tup ''RollLeft'' 0 = 1
         then t3\<lparr>m_roll_trim :=
                max (binary32 (m_roll_trim t3 - float_of_int TRIM_STEP)) TRIM_MIN\<rparr>
         else t3)"

text \<open>The four mode buttons are tested one after the other, each with an \<open>if\<close> of its own.\<close>

definition mode_buttons :: "TupleList \<Rightarrow> Task \<Rightarrow> Task" where
  "mode_buttons tup t =
     (let t1 = (if tl_get_int tup ''Stabilize'' 0 = 1 then changeMode SUB_MODE_STABILIZE t else t);
          t2 = (if tl_get_int tup ''DepthHold'' 0 = 1 then changeMode SUB_MODE_DEPTH_HOLD t1 else t1);
          t3 = (if tl_get_int tup ''PositionHold'' 0 = 1 then changeMode SUB_MODE_POS_HOLD t2 else t2)
      in if tl_get_int tup ''Manual'' 0 = 1 then changeMode SUB_MODE_MANUAL t3 else t3)"

definition arm_buttons :: "TupleList \<Rightarrow> Task \<Rightarrow> Task" where
  "arm_buttons tup t =
     (let t1 = (if tl_get_int tup ''Disarm'' 0 = 1 then disarm t else t)
      in if tl_get_int tup ''Arm'' 0 = 1 then arm t1 else t1)"

definition onRemoteActions :: "mapper \<Rightarrow> TupleList \<Rightarrow> Task \<Rightarrow> Task" where
  "onRemoteActions mapRC2PWM tup t =
     actuate (arm_buttons tup (mode_buttons tup (trim_buttons tup (light_buttons tup
       (tilt_buttons tup (axis_channels mapRC2PWM tup (gain_buttons tup t)))))))"

subsection \<open>Inbound messages\<close>

text \<open>
  \<open>std::strcmp(name.c_str(), parameter.param_id) == 0\<close>. The first argument is a
  terminated string without an inner NUL; the second is the memory from the start of
  \<open>param_id\<close> on, given as the list of its bytes. The comparison stops at the first
  difference, so it holds exactly when the memory starts with the name followed by a
  NUL. The names compared have at most 16 characters: the byte looked at last, if any,
  is the one after \<open>param_id\<close>, and memory beyond it is never read.
\<close>

fun strcmp_eq :: "string \<Rightarrow> string \<Rightarrow> bool" where
  "strcmp_eq [] [] = False"
| "strcmp_eq [] (m # mem) = (m = CHR 0x00)"
| "strcmp_eq (c # cs) [] = False"
| "strcmp_eq (c # cs) (m # mem) = (c = m \<and> strcmp_eq cs mem)"

text \<open>
  The memory that such a comparison can reach: the 16 bytes of \<open>param_id\<close>, then
  \<open>param_type\<close>.
\<close>

definition param_id_mem :: "mavlink_param_value_t \<Rightarrow> string" where
  "param_id_mem parameter =
     take 16 (param_id parameter @ replicate 16 (CHR 0x00)) @ [param_type parameter]"

text \<open>
  \<open>handleParams\<close>. Every test reads \<open>param_id\<close> as a terminated string, so the
  byte after the array, \<open>param_type\<close>, takes part in it. The branch for
  \<open>JS_GAIN_STEPS\<close> holds an expression statement with no effect. The branch for
  \<open>SYSID_MYGCS\<close> compares the received \<open>float\<close> with both identifiers and then
  stores it converted to \<open>int\<close>; the warning it logs while the task is active changes
  no state.
\<close>

definition handleParams :: "mavlink_message_t \<Rightarrow> Task \<Rightarrow> Task" where
  "handleParams msg t =
     (let parameter = payload msg;
          id_mem = param_id_mem parameter in
      if strcmp_eq (js_params_id ! 5) id_mem then
        t\<lparr>m_thr_gain := param_value parameter\<rparr>
      else if strcmp_eq (js_params_id ! 4) id_mem then
        t\<lparr>m_lights_step := int32_of_float (param_value parameter)\<rparr>
      else if strcmp_eq (js_params_id ! 0) id_mem then
        t\<lparr>m_cam_steps := int32_of_float (param_value parameter)\<rparr>
      else if strcmp_eq (js_params_id ! 3) id_mem
              \<and> float_of_int (gain_step (m_args t)) \<noteq> param_value parameter then
        t
      else if strcmp_eq ''SYSID_MYGCS'' id_mem
              \<and> float_of_int (m_gcs t) \<noteq> param_value parameter
              \<and> real (m_sysid t) \<noteq> param_value parameter then
        t\<lparr>m_gcs := int32_of_float (param_value parameter)\<rparr>
      else t)"

text \<open>\<open>handleSysTime\<close> and \<open>handleRC\<close> decode the message and only trace it.\<close>

definition handleSysTime :: "mavlink_message_t \<Rightarrow> Task \<Rightarrow> Task" where
  "handleSysTime msg t = t"

definition handleRC :: "mavlink_message_t \<Rightarrow> Task \<Rightarrow> Task" where
  "handleRC msg t = t"

text \<open>The call through the member-function pointer, \<open>(this->*h)(&m_recv_msg)\<close>.\<close>

fun call_handler :: "PktHandler \<Rightarrow> mavlink_message_t \<Rightarrow> Task \<Rightarrow> Task" where
  "call_handler Task_handleParams msg t = handleParams msg t"
| "call_handler Task_handleSysTime msg t = handleSysTime msg t"
| "call_handler Task_handleRC msg t = handleRC msg t"

text \<open>
  \<open>mavlink_parse_char\<close> belongs to the MAVLink library: the parser is a parameter, a
  step function on its own state \<open>'p\<close> that consumes one byte and yields the return
  value \<open>rv\<close> (whether a message is complete), the message, and the field
  \<open>packet_rx_drop_count\<close> of the status it fills.

  \<open>handleData\<close> walks the first \<open>n\<close> bytes of the buffer, given as a list. Beside
  the parser's state and the task it returns the handler calls it made, in order.
\<close>

type_synonym 'p parser = "'p \<Rightarrow> 8 word \<Rightarrow> 'p \<times> bool \<times> mavlink_message_t \<times> nat"

type_synonym calls = "(PktHandler \<times> mavlink_message_t) list"

fun handleData :: "'p parser \<Rightarrow> 8 word list \<Rightarrow> 'p \<Rightarrow> Task \<Rightarrow> 'p \<times> Task \<times> calls" where
  "handleData parse [] p t = (p, t, [])"
| "handleData parse (b # bs) p t =
     (case parse p b of (p', rv, m_recv_msg, packet_rx_drop_count) \<Rightarrow>
        if packet_rx_drop_count \<noteq> 0 then (p', t, [])
        else if rv then
          (case m_mlh t (msgid m_recv_msg) of
             None \<Rightarrow> handleData parse bs p' t
           | Some h \<Rightarrow>
               (case handleData parse bs p' (call_handler h m_recv_msg t) of
                  (p'', t', cs) \<Rightarrow> (p'', t', (h, m_recv_msg) # cs)))
        else handleData parse bs p' t)"

subsection \<open>Runs of the task\<close>

text \<open>
  The two inputs that write \<open>rc_pwm\<close>: an operator-intent event, and the idle command
  (\<open>idle\<close> is what the start and the end of a teleoperation session call).
\<close>

datatype input = RemoteActions TupleList | IdleCommand

fun step :: "mapper \<Rightarrow> input \<Rightarrow> Task \<Rightarrow> Task" where
  "step mapRC2PWM (RemoteActions tup) t = onRemoteActions mapRC2PWM tup t"
| "step mapRC2PWM IdleCommand t = idle t"

definition run :: "mapper \<Rightarrow> input list \<Rightarrow> Task \<Rightarrow> Task" where
  "run mapRC2PWM ins t = fold (step mapRC2PWM) ins t"

text \<open>A pulse width that lies between \<open>PWM_MIN\<close> and \<open>PWM_MAX\<close>.\<close>

definition in_pulse_range :: "int \<Rightarrow> bool" where
  "in_pulse_range v = (PWM_MIN \<le> float_of_int v \<and> float_of_int v \<le> PWM_MAX)"

text \<open>The modes of the mode-change commands among the packets sent, in order.\<close>

fun mode_changes :: "packet list \<Rightarrow> SUB_MODE list" where
  "mode_changes [] = []"
| "mode_changes (SET_MODE sysid compid target base_mode mode # ps) = mode # mode_changes ps"
| "mode_changes (p # ps) = mode_changes ps"

text \<open>The channel lists of the RC override packets among the packets sent, in order.\<close>

fun rc_overrides :: "packet list \<Rightarrow> 16 word list list" where
  "rc_overrides [] = []"
| "rc_overrides (RC_CHANNELS_OVERRIDE sysid compid target component chans # ps) =
     chans # rc_overrides ps"
| "rc_overrides (p # ps) = rc_overrides ps"

text \<open>The modes whose button an event holds with the value 1, in the order of the tests.\<close>

definition requested_modes :: "TupleList \<Rightarrow> SUB_MODE list" where
  "requested_modes tup =
     map snd (filter (\<lambda>(key, mode). tl_get_int tup key 0 = 1)
       [(''Stabilize'', SUB_MODE_STABILIZE), (''DepthHold'', SUB_MODE_DEPTH_HOLD),
        (''PositionHold'', SUB_MODE_POS_HOLD), (''Manual'', SUB_MODE_MANUAL)])"

subsection \<open>Sample inputs\<close>

text \<open>An event in which exactly the listed buttons are pressed, with no axis value.\<close>

definition press :: "string list \<Rightarrow> TupleList" where
  "press names = \<lparr> buttons = map_of (map (\<lambda>n. (n, 1)) names), axes = Map.empty \<rparr>"

text \<open>An event that holds a throttle value and nothing else.\<close>

definition throttle_event :: TupleList where
  "throttle_event = \<lparr> buttons = Map.empty, axes = [''Throttle'' \<mapsto> 500] \<rparr>"

text \<open>
  A parameter-value message as the MAVLink library decodes it: the name fills
  \<open>param_id\<close> up to its 16 characters, the rest being NUL. \<open>param_value_msg\<close>
  gives it the type \<open>MAV_PARAM_TYPE_REAL32\<close>; the types of the MAVLink enumeration
  are 1 to 10, never 0.
\<close>

definition param_value_typed :: "string \<Rightarrow> real \<Rightarrow> char \<Rightarrow> mavlink_message_t" where
  "param_value_typed name v ty =
     \<lparr> msgid = MAVLINK_MSG_ID_PARAM_VALUE,
       payload = \<lparr> param_value = v, param_id = take 16 (name @ replicate 16 (CHR 0x00)),
                   param_type = ty \<rparr> \<rparr>"

definition MAV_PARAM_TYPE_REAL32 :: char where
  "MAV_PARAM_TYPE_REAL32 = CHR 0x09"

definition param_value_msg :: "string \<Rightarrow> real \<Rightarrow> mavlink_message_t" where
  "param_value_msg name v = param_value_typed name v MAV_PARAM_TYPE_REAL32"

text \<open>
  A mapper for evaluation: the pulse is the idle pulse plus the offset of the input from
  the channel's neutral value, bounded to the pulse range.
\<close>

definition sample_mapper :: mapper where
  "sample_mapper c v = int_of_float (max PWM_MIN (min PWM_MAX (PWM_IDLE + (v - val_neutral c))))"

text \<open>
  A parser for evaluation: every byte is a complete message whose type identifier is the
  byte's value, carrying the parameter \<open>JS_THR_GAIN = 2\<close>; no byte is ever dropped.
\<close>

definition sample_parser :: "unit parser" where
  "sample_parser p b = (p, True, (param_value_msg ''JS_THR_GAIN'' 2)\<lparr>msgid := unat b\<rparr>, 0)"

text \<open>The task after construction with the default options and a successful connection.\<close>

definition connected_task :: Task where
  "connected_task = onResourceAcquisition True (Task_new default_args)"

section \<open>Properties\<close>

subsection \<open>Conversions and frame lemmas\<close>

lemma int_of_float_of_int [simp]: "int_of_float (real_of_int n) = n"
  by (simp add: int_of_float_def)

lemma int_of_float_PWM_IDLE [simp]: "int_of_float PWM_IDLE = 1500"
  by (simp add: PWM_IDLE_def int_of_float_def)

lemma clamp_up [simp]: "int_of_float (min (float_of_int a) PWM_MAX) = min a 1900"
proof -
  have "min (real_of_int a) 1900 = real_of_int (min a 1900)" by (simp add: min_def)
  then show ?thesis by (simp add: float_of_int_def PWM_MAX_def)
qed

lemma clamp_down [simp]: "int_of_float (max (float_of_int a) PWM_MIN) = max a 1100"
proof -
  have "max (real_of_int a) 1100 = real_of_int (max a 1100)" by (simp add: max_def)
  then show ?thesis by (simp add: float_of_int_def PWM_MIN_def)
qed

lemma press_get [simp]:
  "tl_get_int (press names) k d = (if k \<in> set names then 1 else d)"
  "tl_get_float (press names) k = None"
  by (induction names) (simp_all add: press_def tl_get_int_def tl_get_float_def)

lemma sendData_fields [simp]:
  "rc_pwm (sendData p t) = rc_pwm t"
  "m_args (sendData p t) = m_args t"
  "m_cam_steps (sendData p t) = m_cam_steps t"
  "m_lights_step (sendData p t) = m_lights_step t"
  "m_comms (sendData p t) = m_comms t"
  "m_gcs (sendData p t) = m_gcs t"
  "m_sysid (sendData p t) = m_sysid t"
  "m_targetid (sendData p t) = m_targetid t"
  "m_mlh (sendData p t) = m_mlh t"
  by (simp_all add: sendData_def)

lemma set_pwm_fields [simp]:
  "rc_pwm (set_pwm c v t) = (rc_pwm t)[c := v]"
  "m_args (set_pwm c v t) = m_args t"
  "m_cam_steps (set_pwm c v t) = m_cam_steps t"
  "m_lights_step (set_pwm c v t) = m_lights_step t"
  "m_comms (set_pwm c v t) = m_comms t"
  "sent (set_pwm c v t) = sent t"
  by (simp_all add: set_pwm_def)

lemma set_reverse_fields [simp]:
  "rc_pwm (set_reverse c b t) = rc_pwm t"
  "rc (m_args (set_reverse c b t)) = (rc (m_args t))[c := (rc (m_args t) ! c)\<lparr>reverse := b\<rparr>]"
  "m_cam_steps (set_reverse c b t) = m_cam_steps t"
  "m_lights_step (set_reverse c b t) = m_lights_step t"
  "m_comms (set_reverse c b t) = m_comms t"
  "sent (set_reverse c b t) = sent t"
  by (simp_all add: set_reverse_def)

lemma actuate_fields [simp]:
  "rc_pwm (actuate t) = rc_pwm t"
  "m_args (actuate t) = m_args t"
  "m_cam_steps (actuate t) = m_cam_steps t"
  "m_lights_step (actuate t) = m_lights_step t"
  "m_comms (actuate t) = m_comms t"
  by (simp_all add: actuate_def)

lemma arm_buttons_fields [simp]:
  "rc_pwm (arm_buttons tup t) = rc_pwm t"
  "m_args (arm_buttons tup t) = m_args t"
  "m_cam_steps (arm_buttons tup t) = m_cam_steps t"
  "m_lights_step (arm_buttons tup t) = m_lights_step t"
  "m_comms (arm_buttons tup t) = m_comms t"
  by (simp_all add: arm_buttons_def arm_def disarm_def Let_def)

lemma mode_buttons_fields [simp]:
  "rc_pwm (mode_buttons tup t) = rc_pwm t"
  "m_args (mode_buttons tup t) = m_args t"
  "m_cam_steps (mode_buttons tup t) = m_cam_steps t"
  "m_lights_step (mode_buttons tup t) = m_lights_step t"
  "m_comms (mode_buttons tup t) = m_comms t"
  by (simp_all add: mode_buttons_def changeMode_def Let_def)

lemma trim_buttons_fields [simp]:
  "rc_pwm (trim_buttons tup t) = rc_pwm t"
  "m_args (trim_buttons tup t) = m_args t"
  "m_cam_steps (trim_buttons tup t) = m_cam_steps t"
  "m_lights_step (trim_buttons tup t) = m_lights_step t"
  "m_comms (trim_buttons tup t) = m_comms t"
  "sent (trim_buttons tup t) = sent t"
  by (simp_all add: trim_buttons_def Let_def)

lemma gain_buttons_fields [simp]:
  "rc_pwm (gain_buttons tup t) = rc_pwm t"
  "m_args (gain_buttons tup t) = m_args t"
  "m_cam_steps (gain_buttons tup t) = m_cam_steps t"
  "m_lights_step (gain_buttons tup t) = m_lights_step t"
  "m_comms (gain_buttons tup t) = m_comms t"
  "sent (gain_buttons tup t) = sent t"
  by (simp_all add: gain_buttons_def)

lemma light_buttons_fields [simp]:
  "m_args (light_buttons tup t) = m_args t"
  "m_cam_steps (light_buttons tup t) = m_cam_steps t"
  "m_lights_step (light_buttons tup t) = m_lights_step t"
  "m_comms (light_buttons tup t) = m_comms t"
  "sent (light_buttons tup t) = sent t"
  "length (rc_pwm (light_buttons tup t)) = length (rc_pwm t)"
  by (simp_all add: light_buttons_def Let_def)

lemma tilt_buttons_fields [simp]:
  "m_args (tilt_buttons tup t) = m_args t"
  "m_cam_steps (tilt_buttons tup t) = m_cam_steps t"
  "m_lights_step (tilt_buttons tup t) = m_lights_step t"
  "m_comms (tilt_buttons tup t) = m_comms t"
  "sent (tilt_buttons tup t) = sent t"
  "length (rc_pwm (tilt_buttons tup t)) = length (rc_pwm t)"
  by (simp_all add: tilt_buttons_def Let_def)

lemma axis_channel_fields [simp]:
  "m_cam_steps (axis_channel mp tup c t) = m_cam_steps t"
  "m_lights_step (axis_channel mp tup c t) = m_lights_step t"
  "m_comms (axis_channel mp tup c t) = m_comms t"
  "sent (axis_channel mp tup c t) = sent t"
  "length (rc_pwm (axis_channel mp tup c t)) = length (rc_pwm t)"
  "length (rc (m_args (axis_channel mp tup c t))) = length (rc (m_args t))"
  by (simp_all add: axis_channel_def Let_def split: option.split)

lemma fold_axis_channel_fields [simp]:
  "m_cam_steps (fold (axis_channel mp tup) cs t) = m_cam_steps t"
  "m_lights_step (fold (axis_channel mp tup) cs t) = m_lights_step t"
  "m_comms (fold (axis_channel mp tup) cs t) = m_comms t"
  "sent (fold (axis_channel mp tup) cs t) = sent t"
  "length (rc_pwm (fold (axis_channel mp tup) cs t)) = length (rc_pwm t)"
  "length (rc (m_args (fold (axis_channel mp tup) cs t))) = length (rc (m_args t))"
  by (induction cs arbitrary: t; simp)+

lemma axis_channel_other:
  "c \<noteq> ch \<Longrightarrow> rc_pwm (axis_channel mp tup ch t) ! c = rc_pwm t ! c"
  "c \<noteq> ch \<Longrightarrow> rc (m_args (axis_channel mp tup ch t)) ! c = rc (m_args t) ! c"
  by (simp_all add: axis_channel_def Let_def split: option.split)

lemma fold_axis_channel_other:
  "c \<notin> set cs \<Longrightarrow> rc_pwm (fold (axis_channel mp tup) cs t) ! c = rc_pwm t ! c"
  "c \<notin> set cs \<Longrightarrow> rc (m_args (fold (axis_channel mp tup) cs t)) ! c = rc (m_args t) ! c"
  by (induction cs arbitrary: t; simp add: axis_channel_other)+

lemma axis_channel_absent:
  assumes "tl_get_float tup (axis ! c) = None"
  shows "c < length (rc_pwm t) \<Longrightarrow> rc_pwm (axis_channel mp tup c t) ! c = 1500"
    and "c < length (rc (m_args t)) \<Longrightarrow> \<not> reverse (rc (m_args (axis_channel mp tup c t)) ! c)"
  using assms by (simp_all add: axis_channel_def)

lemma fold_axis_channel_absent:
  assumes "tl_get_float tup (axis ! c) = None" "c \<in> set cs" "distinct cs"
  shows "c < length (rc_pwm t) \<Longrightarrow> rc_pwm (fold (axis_channel mp tup) cs t) ! c = 1500"
    and "c < length (rc (m_args t)) \<Longrightarrow> \<not> reverse (rc (m_args (fold (axis_channel mp tup) cs t)) ! c)"
  using assms(2,3)
proof (induction cs arbitrary: t)
  case Nil
  { case 1 then show ?case by simp }
  { case 2 then show ?case by simp }
next
  case (Cons x xs)
  { case 1
    then show ?case
      using Cons.IH(1)[of "axis_channel mp tup x t"] assms(1)
      by (cases "x = c") (auto simp: fold_axis_channel_other axis_channel_absent) }
  { case 2
    then show ?case
      using Cons.IH(2)[of "axis_channel mp tup x t"] assms(1)
      by (cases "x = c") (auto simp: fold_axis_channel_other axis_channel_absent) }
qed

subsection \<open>The axis channels\<close>

lemma tilt_buttons_other:
  "c \<noteq> Camera_Tilt \<Longrightarrow> rc_pwm (tilt_buttons tup t) ! c = rc_pwm t ! c"
  by (simp add: tilt_buttons_def Let_def)

lemma light_buttons_other:
  "c \<noteq> Lights_1_Level \<Longrightarrow> c \<noteq> Lights_2_Level \<Longrightarrow> rc_pwm (light_buttons tup t) ! c = rc_pwm t ! c"
  by (simp add: light_buttons_def Let_def)

lemma onRemoteActions_fields [simp]:
  "m_cam_steps (onRemoteActions mp tup t) = m_cam_steps t"
  "m_lights_step (onRemoteActions mp tup t) = m_lights_step t"
  "m_comms (onRemoteActions mp tup t) = m_comms t"
  "length (rc_pwm (onRemoteActions mp tup t)) = length (rc_pwm t)"
  "length (rc (m_args (onRemoteActions mp tup t))) = length (rc (m_args t))"
  by (simp_all add: onRemoteActions_def axis_channels_def)

text \<open>
  Claim C7. For each of the six axes (channels 0 to 5), when the event holds no numeric
  value for the axis, \<open>onRemoteActions\<close> leaves the idle pulse in that channel of
  \<open>rc_pwm\<close>, whatever it held before, and the channel's reverse flag is false.
\<close>

theorem absent_axis_gives_idle_pulse:
  assumes "channel < 6" and "tl_get_float tup (axis ! channel) = None"
    and "length (rc_pwm t) = 11" and "length (rc (m_args t)) = 11"
  shows "rc_pwm (onRemoteActions mapRC2PWM tup t) ! channel = int_of_float PWM_IDLE
       \<and> \<not> reverse (rc (m_args (onRemoteActions mapRC2PWM tup t)) ! channel)"
proof -
  let ?t1 = "axis_channels mapRC2PWM tup (gain_buttons tup t)"
  have in_loop: "channel \<in> set [0..<6]" "distinct [0..<6]"
    using assms(1) by simp_all
  have "rc_pwm ?t1 ! channel = 1500"
    unfolding axis_channels_def
    using fold_axis_channel_absent(1)[OF assms(2) in_loop] assms(1,3) by simp
  moreover have "\<not> reverse (rc (m_args ?t1) ! channel)"
    unfolding axis_channels_def
    using fold_axis_channel_absent(2)[OF assms(2) in_loop] assms(1,4) by simp
  moreover have "channel \<noteq> Camera_Tilt" "channel \<noteq> Lights_1_Level" "channel \<noteq> Lights_2_Level"
    using assms(1) by (simp_all add: Camera_Tilt_def Lights_1_Level_def Lights_2_Level_def)
  ultimately show ?thesis
    by (simp add: onRemoteActions_def tilt_buttons_other light_buttons_other)
qed

text \<open>
  The throttle channel holds 1600 after an event with a throttle value; the next event,
  with no throttle value, puts it back to 1500.
\<close>

theorem absent_axis_gives_idle_pulse_witness:
  "Throttle < 6
   \<and> tl_get_float (press []) (axis ! Throttle) = None
   \<and> length (rc_pwm (onRemoteActions sample_mapper throttle_event (idle connected_task))) = 11
   \<and> length (rc (m_args (onRemoteActions sample_mapper throttle_event (idle connected_task)))) = 11
   \<and> rc_pwm (onRemoteActions sample_mapper throttle_event (idle connected_task)) ! Throttle = 1600
   \<and> rc_pwm (onRemoteActions sample_mapper (press [])
         (onRemoteActions sample_mapper throttle_event (idle connected_task))) ! Throttle = 1500
   \<and> \<not> reverse (rc (m_args (onRemoteActions sample_mapper (press [])
         (onRemoteActions sample_mapper throttle_event (idle connected_task)))) ! Throttle)"
proof -
  let ?t = "onRemoteActions sample_mapper throttle_event (idle connected_task)"
  have h1: "Throttle < 6" by (simp add: Throttle_def)
  have h2: "tl_get_float (press []) (axis ! Throttle) = None" by simp
  have h3: "length (rc_pwm ?t) = 11" by code_simp
  have h4: "length (rc (m_args ?t)) = 11" by code_simp
  have stale: "rc_pwm ?t ! Throttle = 1600" by code_simp
  show ?thesis
    using absent_axis_gives_idle_pulse[OF h1 h2 h3 h4, of sample_mapper] h1 h2 h3 h4 stale
    by simp
qed

subsection \<open>Camera tilt\<close>





subsection \<open>The pulse range of the channels\<close>

lemma in_pulse_range_iff: "in_pulse_range v \<longleftrightarrow> 1100 \<le> v \<and> v \<le> 1900"
  by (simp add: in_pulse_range_def PWM_MIN_def PWM_MAX_def float_of_int_def)

lemma update_in_range:
  assumes "\<forall>x\<in>set xs. in_pulse_range x" "in_pulse_range v"
  shows "\<forall>x\<in>set (xs[i := v]). in_pulse_range x"
  using assms set_update_subset_insert[of xs i v] by auto

lemma idle_fold:
  "length xs = 11 \<Longrightarrow> fold (\<lambda>channel pwm. pwm[channel := v]) [0..<11] xs = replicate 11 v"
  apply (simp add: upt_rec numeral_eq_Suc)
  apply (simp add: list_eq_iff_nth_eq nth_list_update less_Suc_eq)
  done

lemma idle_fields [simp]:
  "m_cam_steps (idle t) = m_cam_steps t"
  "m_lights_step (idle t) = m_lights_step t"
  "m_comms (idle t) = m_comms t"
  by (simp_all add: idle_def)

lemma idle_rc_pwm: "length (rc_pwm t) = 11 \<Longrightarrow> rc_pwm (idle t) = replicate 11 1500"
  by (simp add: idle_def idle_fold)

lemma axis_channel_range:
  assumes "\<forall>c v. in_pulse_range (mp c v)" "\<forall>x\<in>set (rc_pwm t). in_pulse_range x"
  shows "\<forall>x\<in>set (rc_pwm (axis_channel mp tup ch t)). in_pulse_range x"
proof (cases "tl_get_float tup (axis ! ch)")
  case None
  then show ?thesis
    using update_in_range[OF assms(2), of 1500 ch]
    by (simp add: axis_channel_def in_pulse_range_iff)
next
  case (Some v)
  have "\<forall>x\<in>set ((rc_pwm t)[i := mp c w]). in_pulse_range x" for i c w
    using assms(1) update_in_range[OF assms(2)] by blast
  with Some show ?thesis
    by (simp add: axis_channel_def Let_def)
qed

lemma fold_axis_channel_range:
  assumes "\<forall>c v. in_pulse_range (mp c v)"
  shows "\<forall>x\<in>set (rc_pwm t). in_pulse_range x \<Longrightarrow>
         \<forall>x\<in>set (rc_pwm (fold (axis_channel mp tup) cs t)). in_pulse_range x"
proof (induction cs arbitrary: t)
  case Nil
  then show ?case by simp
next
  case (Cons c cs)
  have "\<forall>x\<in>set (rc_pwm (axis_channel mp tup c t)). in_pulse_range x"
    using axis_channel_range[OF assms Cons.prems] .
  then show ?case using Cons.IH by simp
qed

lemma tilt_buttons_range:
  assumes "\<forall>x\<in>set (rc_pwm t). in_pulse_range x" "length (rc_pwm t) = 11" "0 \<le> m_cam_steps t"
  shows "\<forall>x\<in>set (rc_pwm (tilt_buttons tup t)). in_pulse_range x"
proof -
  have "rc_pwm t ! Camera_Tilt \<in> set (rc_pwm t)"
    using assms(2) by (simp add: Camera_Tilt_def)
  then have old: "in_pulse_range (rc_pwm t ! Camera_Tilt)"
    using assms(1) by blast
  have up: "in_pulse_range (min (rc_pwm t ! Camera_Tilt + m_cam_steps t) 1900)"
    using old assms(3) by (simp add: in_pulse_range_iff)
  have down: "in_pulse_range (max (rc_pwm t ! Camera_Tilt - m_cam_steps t) 1100)"
    using old assms(3) by (simp add: in_pulse_range_iff)
  have mid: "in_pulse_range 1500"
    by (simp add: in_pulse_range_iff)
  show ?thesis
    using update_in_range[OF assms(1) up] update_in_range[OF assms(1) down]
      update_in_range[OF assms(1) mid] assms(1)
    by (simp add: tilt_buttons_def Let_def)
qed

lemma light_buttons_range:
  assumes "\<forall>x\<in>set (rc_pwm t). in_pulse_range x" "length (rc_pwm t) = 11" "0 \<le> m_lights_step t"
  shows "\<forall>x\<in>set (rc_pwm (light_buttons tup t)). in_pulse_range x"
proof -
  have "rc_pwm t ! Lights_1_Level \<in> set (rc_pwm t)"
    using assms(2) by (simp add: Lights_1_Level_def)
  then have old: "in_pulse_range (rc_pwm t ! Lights_1_Level)"
    using assms(1) by blast
  have up: "in_pulse_range (min (rc_pwm t ! Lights_1_Level + m_lights_step t) 1900)"
    using old assms(3) by (simp add: in_pulse_range_iff)
  have down: "in_pulse_range (max (rc_pwm t ! Lights_1_Level - m_lights_step t) 1100)"
    using old assms(3) by (simp add: in_pulse_range_iff)
  show ?thesis
    using update_in_range[OF update_in_range[OF assms(1) up] up]
      update_in_range[OF update_in_range[OF assms(1) down] down] assms(1)
    by (simp add: light_buttons_def Let_def)
qed

lemma onRemoteActions_range:
  assumes "\<forall>c v. in_pulse_range (mp c v)"
    and "\<forall>x\<in>set (rc_pwm t). in_pulse_range x"
    and "length (rc_pwm t) = 11" "0 \<le> m_cam_steps t" "0 \<le> m_lights_step t"
  shows "\<forall>x\<in>set (rc_pwm (onRemoteActions mp tup t)). in_pulse_range x"
proof -
  let ?t1 = "axis_channels mp tup (gain_buttons tup t)"
  have g: "\<forall>x\<in>set (rc_pwm (gain_buttons tup t)). in_pulse_range x"
    using assms(2) by simp
  have a: "\<forall>x\<in>set (rc_pwm ?t1). in_pulse_range x"
    unfolding axis_channels_def by (rule fold_axis_channel_range[OF assms(1) g])
  have la: "length (rc_pwm ?t1) = 11" "0 \<le> m_cam_steps ?t1" "0 \<le> m_lights_step ?t1"
    unfolding axis_channels_def using assms(3-5) by simp_all
  let ?t2 = "tilt_buttons tup ?t1"
  have b: "\<forall>x\<in>set (rc_pwm ?t2). in_pulse_range x"
    using tilt_buttons_range[OF a la(1,2)] .
  have lb: "length (rc_pwm ?t2) = 11" "0 \<le> m_lights_step ?t2"
    using la by simp_all
  have "\<forall>x\<in>set (rc_pwm (light_buttons tup ?t2)). in_pulse_range x"
    using light_buttons_range[OF b lb] .
  then show ?thesis
    by (simp add: onRemoteActions_def)
qed

lemma run_append: "run mp (xs @ ys) t = run mp ys (run mp xs t)"
  by (simp add: run_def)

lemma run_Cons: "run mp (x # xs) t = run mp xs (step mp x t)"
  by (simp add: run_def)

lemma step_steady:
  assumes "length (rc_pwm t) = 11 \<and> 0 \<le> m_cam_steps t \<and> 0 \<le> m_lights_step t"
  shows "length (rc_pwm (step mp i t)) = 11 \<and> 0 \<le> m_cam_steps (step mp i t)
       \<and> 0 \<le> m_lights_step (step mp i t)"
  using assms by (cases i) (simp_all add: idle_rc_pwm)

lemma run_steady:
  "length (rc_pwm t) = 11 \<and> 0 \<le> m_cam_steps t \<and> 0 \<le> m_lights_step t \<Longrightarrow>
   length (rc_pwm (run mp ins t)) = 11 \<and> 0 \<le> m_cam_steps (run mp ins t)
     \<and> 0 \<le> m_lights_step (run mp ins t)"
proof (induction ins arbitrary: t)
  case Nil
  then show ?case by (simp add: run_def)
next
  case (Cons i ins)
  show ?case
    unfolding run_Cons by (rule Cons.IH[OF step_steady[OF Cons.prems]])
qed

lemma step_range:
  assumes "\<forall>c v. in_pulse_range (mp c v)"
    and "length (rc_pwm t) = 11 \<and> 0 \<le> m_cam_steps t \<and> 0 \<le> m_lights_step t"
    and "\<forall>x\<in>set (rc_pwm t). in_pulse_range x"
  shows "\<forall>x\<in>set (rc_pwm (step mp i t)). in_pulse_range x"
proof (cases i)
  case (RemoteActions tup)
  then show ?thesis
    using onRemoteActions_range[OF assms(1) assms(3)] assms(2) by simp
next
  case IdleCommand
  then show ?thesis
    using assms(2) by (simp add: idle_rc_pwm in_pulse_range_iff)
qed

lemma run_range:
  assumes "\<forall>c v. in_pulse_range (mp c v)"
  shows "length (rc_pwm t) = 11 \<and> 0 \<le> m_cam_steps t \<and> 0 \<le> m_lights_step t \<Longrightarrow>
         \<forall>x\<in>set (rc_pwm t). in_pulse_range x \<Longrightarrow>
         \<forall>x\<in>set (rc_pwm (run mp ins t)). in_pulse_range x"
proof (induction ins arbitrary: t)
  case Nil
  then show ?case by (simp add: run_def)
next
  case (Cons i ins)
  show ?case
    unfolding run_Cons
    by (rule Cons.IH[OF step_steady[OF Cons.prems(1)] step_range[OF assms Cons.prems]])
qed

text \<open>
  Claim C1, as amended. Once an idle command has been executed, every later state
  reached by operator-intent events and idle commands has all eleven entries of
  \<open>rc_pwm\<close> between \<open>PWM_MIN\<close> and \<open>PWM_MAX\<close>, provided the channel mapper
  returns pulse widths in that range.
\<close>

theorem pulses_in_range_after_idle:
  assumes "\<forall>c v. in_pulse_range (mapRC2PWM c v)"
  shows "length (rc_pwm (run mapRC2PWM (ins1 @ IdleCommand # ins2) (Task_new args))) = 11
       \<and> (\<forall>v\<in>set (rc_pwm (run mapRC2PWM (ins1 @ IdleCommand # ins2) (Task_new args))).
             in_pulse_range v)"
proof -
  let ?t1 = "run mapRC2PWM ins1 (Task_new args)"
  have s0: "length (rc_pwm (Task_new args)) = 11 \<and> 0 \<le> m_cam_steps (Task_new args)
            \<and> 0 \<le> m_lights_step (Task_new args)"
    by (simp add: Task_new_def)
  have s1: "length (rc_pwm ?t1) = 11 \<and> 0 \<le> m_cam_steps ?t1 \<and> 0 \<le> m_lights_step ?t1"
    by (rule run_steady[OF s0])
  have s2: "length (rc_pwm (idle ?t1)) = 11 \<and> 0 \<le> m_cam_steps (idle ?t1)
            \<and> 0 \<le> m_lights_step (idle ?t1)"
    using step_steady[OF s1, of mapRC2PWM IdleCommand] by simp
  have r2: "\<forall>x\<in>set (rc_pwm (idle ?t1)). in_pulse_range x"
    using s1 by (simp add: idle_rc_pwm in_pulse_range_iff)
  have eq: "run mapRC2PWM (ins1 @ IdleCommand # ins2) (Task_new args)
            = run mapRC2PWM ins2 (idle ?t1)"
    by (simp add: run_append run_Cons)
  show ?thesis
    unfolding eq using run_steady[OF s2] run_range[OF assms s2 r2] by simp
qed

lemma sample_mapper_range: "in_pulse_range (sample_mapper c v)"
proof -
  let ?y = "max PWM_MIN (min PWM_MAX (PWM_IDLE + (v - val_neutral c)))"
  have b: "1100 \<le> ?y" "?y \<le> 1900"
    by (simp_all add: PWM_MIN_def PWM_MAX_def)
  then have "int_of_float ?y = \<lfloor>?y\<rfloor>"
    by (simp add: int_of_float_def)
  moreover have "1100 \<le> \<lfloor>?y\<rfloor>" using b(1) by (simp add: le_floor_iff)
  moreover have "\<lfloor>?y\<rfloor> \<le> 1900" using b(2) by (simp add: floor_le_iff)
  ultimately show ?thesis
    by (simp add: sample_mapper_def in_pulse_range_iff)
qed

text \<open>
  Claim C1 as stated fails before the first idle command: \<open>rc_pwm\<close> starts as
  zeros, and an event writes only the six axis channels and the channels of the buttons
  it holds. After one \<open>TiltUP\<close> event on the constructed task the tilt channel holds
  50 and channels 6, 8, 9 and 10 hold 0.
\<close>

theorem stale_pulses_before_first_idle:
  "rc_pwm (run sample_mapper [RemoteActions (press [''TiltUP''])] (Task_new default_args))
     = [1500, 1500, 1500, 1500, 1500, 1500, 0, 50, 0, 0, 0]
   \<and> \<not> in_pulse_range
         (rc_pwm (run sample_mapper [RemoteActions (press [''TiltUP''])] (Task_new default_args))
            ! Camera_Tilt)"
  by code_simp

text \<open>
  The sample mapper stays in the pulse range; a run with an event before and two events
  after the idle command ends with every channel in range.
\<close>

theorem pulses_in_range_after_idle_witness:
  "(\<forall>c v. in_pulse_range (sample_mapper c v))
   \<and> rc_pwm (run sample_mapper
        [RemoteActions (press [''TiltUP'']), IdleCommand, RemoteActions throttle_event,
         RemoteActions (press [''TiltDown'', ''LightBrighter''])] (Task_new default_args))
       = [1500, 1500, 1500, 1500, 1500, 1500, 1500, 1450, 1600, 1600, 1500]
   \<and> list_all in_pulse_range (rc_pwm (run sample_mapper
        [RemoteActions (press [''TiltUP'']), IdleCommand, RemoteActions throttle_event,
         RemoteActions (press [''TiltDown'', ''LightBrighter''])] (Task_new default_args)))"
proof -
  have h: "\<forall>c v. in_pulse_range (sample_mapper c v)"
    by (simp add: sample_mapper_range)
  have v: "rc_pwm (run sample_mapper
        [RemoteActions (press [''TiltUP'']), IdleCommand, RemoteActions throttle_event,
         RemoteActions (press [''TiltDown'', ''LightBrighter''])] (Task_new default_args))
       = [1500, 1500, 1500, 1500, 1500, 1500, 1500, 1450, 1600, 1600, 1500]"
    by code_simp
  show ?thesis
    using pulses_in_range_after_idle[OF h, of "[RemoteActions (press [''TiltUP''])]"
        "[RemoteActions throttle_event, RemoteActions (press [''TiltDown'', ''LightBrighter''])]"
        default_args] h v
    by (simp add: list_all_iff)
qed

subsection \<open>Mode-change commands\<close>

lemma mode_changes_append: "mode_changes (ps @ qs) = mode_changes ps @ mode_changes qs"
  by (induction ps rule: mode_changes.induct) simp_all

lemma mode_changes_changeMode:
  "mode_changes (sent (changeMode mode t))
     = mode_changes (sent t) @ (if m_comms t then [mode] else [])"
  by (simp add: changeMode_def sendData_def mode_changes_append)

lemma changeMode_comms [simp]: "m_comms (changeMode mode t) = m_comms t"
  by (simp add: changeMode_def)

lemma mode_changes_mode_buttons:
  "mode_changes (sent (mode_buttons tup t))
     = mode_changes (sent t) @ (if m_comms t then requested_modes tup else [])"
  by (simp add: mode_buttons_def Let_def mode_changes_changeMode requested_modes_def)

lemma mode_changes_arm_buttons:
  "mode_changes (sent (arm_buttons tup t)) = mode_changes (sent t)"
  by (simp add: arm_buttons_def Let_def arm_def disarm_def sendData_def mode_changes_append)

lemma mode_changes_actuate:
  "mode_changes (sent (actuate t)) = mode_changes (sent t)"
  by (simp add: actuate_def sendData_def mode_changes_append)

text \<open>
  Claim C3, as amended. While the link is up, an event makes the task send one
  mode-change command for each of the buttons \<open>Stabilize\<close>, \<open>DepthHold\<close>,
  \<open>PositionHold\<close> and \<open>Manual\<close> that it holds with the value 1, in that order, so
  up to four in one cycle; while the link is down it sends none.
\<close>

theorem one_mode_change_per_pressed_button:
  "mode_changes (sent (onRemoteActions mapRC2PWM tup t))
     = mode_changes (sent t) @ (if m_comms t then requested_modes tup else [])"
  by (simp add: onRemoteActions_def mode_changes_actuate mode_changes_arm_buttons
      mode_changes_mode_buttons axis_channels_def)

text \<open>
  Claim C3 as stated fails: an event with both \<open>Stabilize\<close> and \<open>Manual\<close> set
  makes the connected task send two mode-change commands, the second one for
  \<open>Manual\<close>.
\<close>

theorem two_mode_changes_in_one_cycle:
  "mode_changes (sent connected_task) = []
   \<and> mode_changes (sent (onRemoteActions sample_mapper (press [''Stabilize'', ''Manual''])
        connected_task)) = [SUB_MODE_STABILIZE, SUB_MODE_MANUAL]"
  by code_simp

subsection \<open>Parameter-value messages\<close>

lemma js_params_id_nth [simp]:
  "js_params_id ! 0 = ''JS_CAM_TILT_STEP''" "js_params_id ! 3 = ''JS_GAIN_STEPS''"
  "js_params_id ! 4 = ''JS_LIGHTS_STEPS''" "js_params_id ! 5 = ''JS_THR_GAIN''"
  by (simp_all add: js_params_id_def)

lemma strcmp_eq_padding [simp]:
  "0 < n \<Longrightarrow> strcmp_eq [] (replicate n (CHR 0x00) @ mem)"
  by (cases n) simp_all

lemma int32_of_float_in_range:
  "INT_MIN \<le> int_of_float v \<Longrightarrow> int_of_float v \<le> INT_MAX \<Longrightarrow> int32_of_float v = int_of_float v"
  by (simp add: int32_of_float_def)

text \<open>
  Claim C4, as amended. A parameter-value message named \<open>JS_THR_GAIN\<close> stores the
  received value in the throttle gain, and one named \<open>JS_LIGHTS_STEPS\<close> stores the
  received value, converted to a 32-bit \<open>int\<close>, in the light step, whatever the type
  byte of the message. A message named \<open>JS_GAIN_MAX\<close> or \<open>JS_GAIN_MIN\<close> changes
  nothing (the gain bounds are constants), and one named \<open>JS_GAIN_STEPS\<close> changes
  neither the configured gain step nor the gain.
\<close>

theorem handleParams_stores_two_parameters:
  "m_thr_gain (handleParams (param_value_typed ''JS_THR_GAIN'' v ty) t) = v
   \<and> m_lights_step (handleParams (param_value_typed ''JS_LIGHTS_STEPS'' v ty) t)
       = int32_of_float v
   \<and> handleParams (param_value_typed ''JS_GAIN_MAX'' v ty) t = t
   \<and> handleParams (param_value_typed ''JS_GAIN_MIN'' v ty) t = t
   \<and> gain_step (m_args (handleParams (param_value_typed ''JS_GAIN_STEPS'' v ty) t))
       = gain_step (m_args t)
   \<and> m_gain (handleParams (param_value_typed ''JS_GAIN_STEPS'' v ty) t) = m_gain t"
  by (simp add: handleParams_def param_value_typed_def param_id_mem_def Let_def)

text \<open>
  Claim C4 as stated fails for three of the six names: after \<open>JS_GAIN_MAX = 0.8\<close>
  or \<open>JS_GAIN_MIN = 0.2\<close> the task is unchanged, and after \<open>JS_GAIN_STEPS = 5\<close>
  the gain step is still the configured 10.
\<close>

theorem gain_parameters_not_stored:
  "handleParams (param_value_msg ''JS_GAIN_MAX'' 0.8) connected_task = connected_task
   \<and> handleParams (param_value_msg ''JS_GAIN_MIN'' 0.2) connected_task = connected_task
   \<and> gain_step (m_args (handleParams (param_value_msg ''JS_GAIN_STEPS'' 5) connected_task)) = 10"
proof -
  have "gain_step (m_args connected_task) = 10"
    by code_simp
  then show ?thesis
    by (simp add: handleParams_def param_value_msg_def param_value_typed_def param_id_mem_def
        Let_def)
qed

text \<open>
  The name \<open>JS_CAM_TILT_STEP\<close> has 16 characters and fills \<open>param_id\<close>, so the
  comparison goes on to the type byte: with a type other than 0, as every type of the
  MAVLink enumeration is, the message changes nothing, and the camera step is stored
  only when the type byte is 0.
\<close>

lemma cam_tilt_step_needs_type_zero:
  "ty \<noteq> CHR 0x00 \<Longrightarrow> handleParams (param_value_typed ''JS_CAM_TILT_STEP'' v ty) t = t"
  "m_cam_steps (handleParams (param_value_typed ''JS_CAM_TILT_STEP'' v (CHR 0x00)) t)
     = int32_of_float v"
  by (simp_all add: handleParams_def param_value_typed_def param_id_mem_def Let_def)

lemma cam_tilt_step_unchanged:
  "m_cam_steps (handleParams (param_value_msg ''JS_CAM_TILT_STEP'' 30) connected_task) = 50"
  by code_simp

text \<open>
  Claim C10 at the value 254.5: the received value differs from both identifiers as a
  \<open>float\<close>, so the branch is taken, and its conversion to \<open>int\<close> is 254, the
  task's own system identifier; releasing control then sets the remote
  \<open>SYSID_MYGCS\<close> to 254.
\<close>

theorem own_identifier_stored_as_previous_controller:
  "m_gcs (handleParams (param_value_msg ''SYSID_MYGCS'' 254.5) connected_task)
     = int (m_sysid connected_task)
   \<and> last (sent (disableControl
        (handleParams (param_value_msg ''SYSID_MYGCS'' 254.5) connected_task)))
     = PARAM_SET 255 0 1 1 ''SYSID_MYGCS'' 254"
  by code_simp

text \<open>
  For a received value that is a whole number the stored identifier stays different from
  the task's own.
\<close>

lemma handleParams_whole_identifier:
  assumes "m_gcs t \<noteq> int (m_sysid t)" and "param_value (payload msg) = real_of_int k"
  shows "m_gcs (handleParams msg t) \<noteq> int (m_sysid t)"
proof -
  have "int32_of_float (real_of_int k) \<noteq> int (m_sysid t)" if "real (m_sysid t) \<noteq> real_of_int k"
  proof -
    have "int (m_sysid t) \<noteq> k" using that by auto
    then show ?thesis
      by (auto simp: int32_of_float_def INT_MIN_def)
  qed
  then show ?thesis
    using assms by (auto simp: handleParams_def Let_def)
qed

subsection \<open>Dispatch of inbound messages\<close>

lemma call_handler_m_mlh [simp]: "m_mlh (call_handler h msg t) = m_mlh t"
  by (cases h) (simp_all add: handleParams_def handleSysTime_def handleRC_def Let_def)

lemma handleData_calls_registered:
  "(h, msg) \<in> set (snd (snd (handleData parse bs p t))) \<Longrightarrow> m_mlh t (msgid msg) = Some h"
proof (induction bs arbitrary: p t)
  case Nil
  then show ?case by simp
next
  case (Cons b bs)
  obtain p' rv m d where step: "parse p b = (p', rv, m, d)"
    by (cases "parse p b") auto
  show ?case
  proof (cases "d \<noteq> 0 \<or> \<not> rv")
    case True
    then show ?thesis
      using Cons.prems Cons.IH[of p' t] step by (auto split: if_splits)
  next
    case False
    show ?thesis
    proof (cases "m_mlh t (msgid m)")
      case None
      then show ?thesis
        using False Cons.prems Cons.IH[of p' t] step by simp
    next
      case (Some g)
      obtain p'' t' cs where rest: "handleData parse bs p' (call_handler g m t) = (p'', t', cs)"
        by (cases "handleData parse bs p' (call_handler g m t)") auto
      have "(h, msg) = (g, m) \<or> (h, msg) \<in> set cs"
        using False Some Cons.prems step rest by simp
      then show ?thesis
      proof
        assume "(h, msg) = (g, m)"
        then show ?thesis using Some by simp
      next
        assume "(h, msg) \<in> set cs"
        then show ?thesis
          using Cons.IH[of p' "call_handler g m t"] rest by simp
      qed
    qed
  qed
qed

lemma registered_types:
  "dom (m_mlh (Task_new args))
     = {MAVLINK_MSG_ID_PARAM_VALUE, MAVLINK_MSG_ID_SYSTEM_TIME, MAVLINK_MSG_ID_RC_CHANNELS}"
  by (auto simp: Task_new_def split: if_splits)

text \<open>
  Claim C9. Whatever the parser and the bytes, every handler call that \<open>handleData\<close>
  makes is the call of the handler registered in \<open>m_mlh\<close> for the type of the
  message; a complete message with no dropped byte whose type has no entry is skipped,
  the task and the handler calls being those of the remaining bytes alone; and with the
  table set up by the constructor the only types that reach a handler are
  \<open>PARAM_VALUE\<close>, \<open>SYSTEM_TIME\<close> and \<open>RC_CHANNELS\<close>.
\<close>

theorem handlers_only_for_registered_types:
  "(\<forall>(h, msg) \<in> set (snd (snd (handleData parse bs p t))). m_mlh t (msgid msg) = Some h)
   \<and> (\<forall>b p' msg. parse p b = (p', True, msg, 0) \<and> m_mlh t (msgid msg) = None \<longrightarrow>
         handleData parse (b # bs) p t = handleData parse bs p' t)
   \<and> (m_mlh t = m_mlh (Task_new args) \<longrightarrow>
        (\<forall>(h, msg) \<in> set (snd (snd (handleData parse bs p t))).
           msgid msg \<in> {MAVLINK_MSG_ID_PARAM_VALUE, MAVLINK_MSG_ID_SYSTEM_TIME,
                         MAVLINK_MSG_ID_RC_CHANNELS}))"
proof -
  have reg: "m_mlh t (msgid msg) = Some h"
    if "(h, msg) \<in> set (snd (snd (handleData parse bs p t)))" for h msg
    using that by (rule handleData_calls_registered)
  have "msgid msg \<in> {MAVLINK_MSG_ID_PARAM_VALUE, MAVLINK_MSG_ID_SYSTEM_TIME,
                       MAVLINK_MSG_ID_RC_CHANNELS}"
    if "m_mlh t = m_mlh (Task_new args)"
      and "(h, msg) \<in> set (snd (snd (handleData parse bs p t)))" for h msg
  proof -
    have "msgid msg \<in> dom (m_mlh (Task_new args))"
      using reg[OF that(2)] that(1) by auto
    then show ?thesis by (simp only: registered_types)
  qed
  then show ?thesis using reg by auto
qed

text \<open>
  Of four messages of types 22, 0, 65 and 7, the first and the third reach a handler;
  the message of type 0 is skipped.
\<close>

theorem handlers_only_for_registered_types_witness:
  "snd (snd (handleData sample_parser [22, 0, 65, 7] () connected_task))
     = [(Task_handleParams, (param_value_msg ''JS_THR_GAIN'' 2)\<lparr>msgid := 22\<rparr>),
        (Task_handleRC, (param_value_msg ''JS_THR_GAIN'' 2)\<lparr>msgid := 65\<rparr>)]
   \<and> list_all (\<lambda>(h, msg). m_mlh connected_task (msgid msg) = Some h)
        (snd (snd (handleData sample_parser [22, 0, 65, 7] () connected_task)))
   \<and> m_mlh connected_task = m_mlh (Task_new default_args)
   \<and> list_all (\<lambda>(h, msg). msgid msg \<in> {MAVLINK_MSG_ID_PARAM_VALUE,
          MAVLINK_MSG_ID_SYSTEM_TIME, MAVLINK_MSG_ID_RC_CHANNELS})
        (snd (snd (handleData sample_parser [22, 0, 65, 7] () connected_task)))
   \<and> m_mlh connected_task 0 = None
   \<and> handleData sample_parser [0, 65, 7] () connected_task
       = handleData sample_parser [65, 7] () connected_task
   \<and> m_thr_gain (fst (snd (handleData sample_parser [22, 0, 65, 7] () connected_task))) = 2"
proof -
  have c: "snd (snd (handleData sample_parser [22, 0, 65, 7] () connected_task))
     = [(Task_handleParams, (param_value_msg ''JS_THR_GAIN'' 2)\<lparr>msgid := 22\<rparr>),
        (Task_handleRC, (param_value_msg ''JS_THR_GAIN'' 2)\<lparr>msgid := 65\<rparr>)]"
    by code_simp
  have g: "m_thr_gain (fst (snd (handleData sample_parser [22, 0, 65, 7] () connected_task))) = 2"
    by code_simp
  have n: "m_mlh connected_task 0 = None"
    by code_simp
  have s: "sample_parser () 0
             = ((), True, (param_value_msg ''JS_THR_GAIN'' 2)\<lparr>msgid := 0\<rparr>, 0)"
    by (simp add: sample_parser_def)
  note inst = handlers_only_for_registered_types[of sample_parser _ "()" connected_task default_args]
  have a: "list_all (\<lambda>(h, msg). m_mlh connected_task (msgid msg) = Some h)
        (snd (snd (handleData sample_parser [22, 0, 65, 7] () connected_task)))"
    using inst[of "[22, 0, 65, 7]"] by (simp only: list_all_iff) blast
  let ?m = "(param_value_msg ''JS_THR_GAIN'' 2)\<lparr>msgid := 0\<rparr>"
  have "sample_parser () 0 = ((), True, ?m, 0) \<and> m_mlh connected_task (msgid ?m) = None \<longrightarrow>
        handleData sample_parser (0 # [65, 7]) () connected_task
          = handleData sample_parser [65, 7] () connected_task"
    using inst[of "[65, 7]"] by blast
  then have b: "handleData sample_parser [0, 65, 7] () connected_task
       = handleData sample_parser [65, 7] () connected_task"
    using s n by simp
  have e: "m_mlh connected_task = m_mlh (Task_new default_args)"
    by (simp add: connected_task_def onResourceAcquisition_def openConnection_def
        handshake_def requestGCSParam_def param_request_read_def setParamByName_def
        sendData_def Let_def)
  have r: "list_all (\<lambda>(h, msg). msgid msg \<in> {MAVLINK_MSG_ID_PARAM_VALUE,
          MAVLINK_MSG_ID_SYSTEM_TIME, MAVLINK_MSG_ID_RC_CHANNELS})
        (snd (snd (handleData sample_parser [22, 0, 65, 7] () connected_task)))"
    using inst[of "[22, 0, 65, 7]"] e by (simp only: list_all_iff) blast
  show ?thesis using a b c e g n r by blast
qed

subsection \<open>The packet sent by \<open>actuate\<close>\<close>

lemma rc_overrides_append: "rc_overrides (ps @ qs) = rc_overrides ps @ rc_overrides qs"
  by (induction ps rule: rc_overrides.induct) simp_all

lemma rc_overrides_mode_buttons:
  "rc_overrides (sent (mode_buttons tup t)) = rc_overrides (sent t)"
  by (simp add: mode_buttons_def Let_def changeMode_def sendData_def rc_overrides_append)

lemma rc_overrides_arm_buttons:
  "rc_overrides (sent (arm_buttons tup t)) = rc_overrides (sent t)"
  by (simp add: arm_buttons_def Let_def arm_def disarm_def sendData_def rc_overrides_append)

lemma rc_overrides_actuate:
  "rc_overrides (sent (actuate t))
     = rc_overrides (sent t)
       @ (if m_comms t then [map (\<lambda>channel. u16 (rc_pwm t ! channel)) [0..<8]] else [])"
proof -
  have "[0..<8] = [0, 1, 2, 3, 4, 5, 6, 7]"
    by (simp add: upt_rec)
  then show ?thesis
    by (simp add: actuate_def sendData_def rc_overrides_append)
qed

text \<open>
  Claim C2, as amended. While the link is up, every operator-intent event ends with
  exactly one RC override packet, whether or not any channel changed; the packet carries
  the new pulse widths of channels 0 to 7. While the link is down no such packet is
  sent.
\<close>

theorem eight_channels_sent_every_cycle:
  "rc_overrides (sent (onRemoteActions mapRC2PWM tup t))
     = rc_overrides (sent t)
       @ (if m_comms t
          then [map (\<lambda>channel. u16 (rc_pwm (onRemoteActions mapRC2PWM tup t) ! channel)) [0..<8]]
          else [])"
proof -
  let ?t1 = "arm_buttons tup (mode_buttons tup (trim_buttons tup (light_buttons tup
       (tilt_buttons tup (axis_channels mapRC2PWM tup (gain_buttons tup t))))))"
  have a: "onRemoteActions mapRC2PWM tup t = actuate ?t1"
    by (simp add: onRemoteActions_def)
  have b: "rc_overrides (sent ?t1) = rc_overrides (sent t)"
    by (simp add: rc_overrides_arm_buttons rc_overrides_mode_buttons axis_channels_def)
  have c: "m_comms ?t1 = m_comms t"
    by (simp add: axis_channels_def)
  show ?thesis
    unfolding a rc_overrides_actuate b c by simp
qed

text \<open>
  Claim C2 as stated fails. After a \<open>LightBrighter\<close> event both light channels of
  \<open>rc_pwm\<close> hold 1600, and the packet sent at the end of the cycle carries the eight
  channels 0 to 7 only: the light channels and the video-switch channel are not in it.
  The same event on a task whose link is down sends nothing.
\<close>

theorem actuate_omits_light_channels:
  "rc_pwm (onRemoteActions sample_mapper (press [''LightBrighter'']) (idle connected_task))
     = [1500, 1500, 1500, 1500, 1500, 1500, 1500, 1500, 1600, 1600, 1500]
   \<and> last (sent (onRemoteActions sample_mapper (press [''LightBrighter''])
        (idle connected_task)))
     = RC_CHANNELS_OVERRIDE 254 1 1 0 [1500, 1500, 1500, 1500, 1500, 1500, 1500, 1500]
   \<and> sent (onRemoteActions sample_mapper (press [''LightBrighter''])
        (Task_new default_args)) = []"
  by code_simp

subsection \<open>The gain\<close>

lemma round_half_even_error: "\<bar>real_of_int (round_half_even y) - y\<bar> \<le> 1 / 2"
proof -
  have "real_of_int \<lfloor>y\<rfloor> \<le> y" "y < real_of_int \<lfloor>y\<rfloor> + 1"
    by linarith+
  then show ?thesis
    unfolding round_half_even_def Let_def by (simp split: if_splits)
qed

lemma binade_up_bounds:
  "0 < p \<Longrightarrow> p \<le> binade_up n p a \<and> (a < 2 * p \<longrightarrow> binade_up n p a = p)"
proof (induction n arbitrary: p)
  case 0
  then show ?case by simp
next
  case (Suc n)
  from Suc.IH[of "2 * p"] Suc.prems show ?case by (simp; linarith)
qed

lemma binade_down_bounds: "0 < p \<Longrightarrow> 0 < binade_down n p a \<and> binade_down n p a \<le> p"
proof (induction n arbitrary: p)
  case 0
  then show ?case by simp
next
  case (Suc n)
  from Suc.IH[of "p / 2"] Suc.prems show ?case by (simp; linarith)
qed

lemma binade_pos: "0 < binade x"
  using binade_up_bounds[of 1 127 "\<bar>x\<bar>"] binade_down_bounds[of "1 / 2" 125 "\<bar>x\<bar>"]
  unfolding binade_def by (simp; linarith)

lemma binade_small: "\<bar>x\<bar> < 2 \<Longrightarrow> binade x \<le> 1"
  using binade_up_bounds[of 1 127 "\<bar>x\<bar>"] binade_down_bounds[of "1 / 2" 125 "\<bar>x\<bar>"]
  unfolding binade_def by (simp; linarith)

text \<open>Below 2 in magnitude, rounding to single precision moves a value by at most \<open>2^-24\<close>.\<close>

lemma binary32_error:
  assumes "\<bar>x\<bar> < 2"
  shows "\<bar>binary32 x - x\<bar> \<le> 1 / 2 ^ 24"
proof -
  define u where "u = binade x / 2 ^ 23"
  have u: "0 < u" "u \<le> 1 / 2 ^ 23"
    using binade_pos[of x] binade_small[OF assms] by (simp_all add: u_def field_simps)
  have "binary32 x = u * real_of_int (round_half_even (x / u))"
    unfolding binary32_def Let_def u_def ..
  then have "binary32 x - x = u * (real_of_int (round_half_even (x / u)) - x / u)"
    using u(1) by (simp add: right_diff_distrib)
  then have "\<bar>binary32 x - x\<bar> = u * \<bar>real_of_int (round_half_even (x / u)) - x / u\<bar>"
    using u(1) by (simp add: abs_mult)
  also have "\<dots> \<le> u * (1 / 2)"
    using u(1) round_half_even_error[of "x / u"] by (intro mult_left_mono) simp_all
  also have "\<dots> \<le> 1 / 2 ^ 24" using u(2) by simp
  finally show ?thesis .
qed

lemma GAIN_MIN_value: "GAIN_MIN = 13421773 / 134217728"
  unfolding GAIN_MIN_def by code_simp

lemma gain_delta_bounds:
  assumes "2 \<le> s" "s \<le> 10"
  shows "\<bar>binary32 (float_of_int s / 100) - real_of_int s / 100\<bar> \<le> 1 / 2 ^ 24"
proof -
  have "\<bar>real_of_int s / 100\<bar> < 2" using assms by simp
  then show ?thesis
    unfolding float_of_int_def by (rule binary32_error)
qed

lemma gain_buttons_m_gain:
  "m_gain (gain_buttons tup t) =
     (if tl_get_int tup ''GainUP'' 0 = 1 then
        min (binary32 (m_gain t + binary32 (float_of_int (gain_step (m_args t)) / 100))) GAIN_MAX
      else if tl_get_int tup ''GainDown'' 0 = 1 then
        max (binary32 (m_gain t - binary32 (float_of_int (gain_step (m_args t)) / 100))) GAIN_MIN
      else m_gain t)"
  by (simp add: gain_buttons_def)

lemma gain_buttons_range:
  assumes s: "2 \<le> gain_step (m_args t)" "gain_step (m_args t) \<le> 10"
    and g: "GAIN_MIN \<le> m_gain t" "m_gain t \<le> GAIN_MAX"
  shows "GAIN_MIN \<le> m_gain (gain_buttons tup t) \<and> m_gain (gain_buttons tup t) \<le> GAIN_MAX
       \<and> \<bar>m_gain (gain_buttons tup t) - m_gain t\<bar>
           \<le> real_of_int (gain_step (m_args t)) / 100 + 1 / 2 ^ 23"
proof -
  define d where "d = binary32 (float_of_int (gain_step (m_args t)) / 100)"
  define q where "q = real_of_int (gain_step (m_args t)) / 100"
  have q: "2 / 100 \<le> q" "q \<le> 10 / 100"
    using s by (simp_all add: q_def)
  have d: "\<bar>d - q\<bar> \<le> 1 / 2 ^ 24"
    unfolding d_def q_def by (rule gain_delta_bounds[OF s])
  have g': "1 / 10 \<le> m_gain t" "m_gain t \<le> 1"
    using g by (simp_all add: GAIN_MIN_value GAIN_MAX_def)
  have up: "\<bar>binary32 (m_gain t + d) - (m_gain t + d)\<bar> \<le> 1 / 2 ^ 24"
    using g' d q by (intro binary32_error) (simp add: abs_if split: if_splits)
  have down: "\<bar>binary32 (m_gain t - d) - (m_gain t - d)\<bar> \<le> 1 / 2 ^ 24"
    using g' d q by (intro binary32_error) (simp add: abs_if split: if_splits)
  have eq: "m_gain (gain_buttons tup t) =
     (if tl_get_int tup ''GainUP'' 0 = 1 then min (binary32 (m_gain t + d)) GAIN_MAX
      else if tl_get_int tup ''GainDown'' 0 = 1 then max (binary32 (m_gain t - d)) GAIN_MIN
      else m_gain t)"
    by (simp add: gain_buttons_m_gain d_def)
  show ?thesis
    unfolding eq q_def[symmetric]
    using g g' q d up down
    by (simp add: GAIN_MIN_value GAIN_MAX_def abs_if min_def max_def split: if_splits)
qed


lemma later_steps_keep_gain [simp]:
  "m_gain (sendData p t) = m_gain t"
  "m_gain (set_pwm c v t) = m_gain t"
  "m_gain (set_reverse c b t) = m_gain t"
  "gain_step (m_args (set_reverse c b t)) = gain_step (m_args t)"
  "m_gain (actuate t) = m_gain t"
  "m_gain (arm_buttons tup t) = m_gain t"
  "m_gain (mode_buttons tup t) = m_gain t"
  "m_gain (trim_buttons tup t) = m_gain t"
  "m_gain (light_buttons tup t) = m_gain t"
  "m_gain (tilt_buttons tup t) = m_gain t"
  "m_gain (idle t) = m_gain t"
  "m_args (idle t) = m_args t"
  by (simp_all add: sendData_def set_pwm_def set_reverse_def actuate_def arm_buttons_def
      arm_def disarm_def mode_buttons_def changeMode_def trim_buttons_def light_buttons_def
      tilt_buttons_def idle_def Let_def)

lemma axis_channel_keeps_gain [simp]:
  "m_gain (axis_channel mp tup c t) = m_gain t"
  "gain_step (m_args (axis_channel mp tup c t)) = gain_step (m_args t)"
  by (simp_all add: axis_channel_def Let_def split: option.split)

lemma fold_axis_channel_keeps_gain [simp]:
  "m_gain (fold (axis_channel mp tup) cs t) = m_gain t"
  "gain_step (m_args (fold (axis_channel mp tup) cs t)) = gain_step (m_args t)"
  by (induction cs arbitrary: t; simp)+

lemma onRemoteActions_gain:
  "m_gain (onRemoteActions mp tup t) = m_gain (gain_buttons tup t)"
  "gain_step (m_args (onRemoteActions mp tup t)) = gain_step (m_args t)"
  by (simp_all add: onRemoteActions_def axis_channels_def)

lemma step_gain_range:
  assumes "2 \<le> gain_step (m_args t) \<and> gain_step (m_args t) \<le> 10
           \<and> GAIN_MIN \<le> m_gain t \<and> m_gain t \<le> GAIN_MAX"
  shows "gain_step (m_args (step mp i t)) = gain_step (m_args t)
       \<and> GAIN_MIN \<le> m_gain (step mp i t) \<and> m_gain (step mp i t) \<le> GAIN_MAX"
proof (cases i)
  case (RemoteActions tup)
  then show ?thesis
    using assms gain_buttons_range[of t tup] by (simp add: onRemoteActions_gain)
next
  case IdleCommand
  then show ?thesis using assms by simp
qed

lemma run_gain_range:
  "2 \<le> gain_step (m_args t) \<and> gain_step (m_args t) \<le> 10
     \<and> GAIN_MIN \<le> m_gain t \<and> m_gain t \<le> GAIN_MAX \<Longrightarrow>
   gain_step (m_args (run mp ins t)) = gain_step (m_args t)
     \<and> GAIN_MIN \<le> m_gain (run mp ins t) \<and> m_gain (run mp ins t) \<le> GAIN_MAX"
proof (induction ins arbitrary: t)
  case Nil
  then show ?case by (simp add: run_def)
next
  case (Cons i ins)
  have "2 \<le> gain_step (m_args (step mp i t)) \<and> gain_step (m_args (step mp i t)) \<le> 10
        \<and> GAIN_MIN \<le> m_gain (step mp i t) \<and> m_gain (step mp i t) \<le> GAIN_MAX"
    using step_gain_range[OF Cons.prems, of mp i] Cons.prems by simp
  from Cons.IH[OF this] step_gain_range[OF Cons.prems, of mp i] show ?case
    by (simp add: run_Cons)
qed

lemma initial_gain: "m_gain (Task_new args) = 13421773 / 67108864"
proof -
  have "binary32 0.20 = 13421773 / 67108864" by code_simp
  then show ?thesis by (simp add: Task_new_def)
qed

text \<open>
  Claim C6, as amended. With a configured gain step between 2 and 10, after every
  sequence of operator-intent events and idle commands the gain lies between
  \<open>GAIN_MIN\<close> and \<open>GAIN_MAX\<close>. An event applies at most one adjustment: with
  \<open>GainUP\<close> set the gain becomes the sum of gain and step, rounded to single
  precision and bounded by \<open>GAIN_MAX\<close>, whether or not \<open>GainDown\<close> is set;
  otherwise with \<open>GainDown\<close> set it becomes the rounded difference, bounded by
  \<open>GAIN_MIN\<close>; otherwise it stays. One event changes the gain by at most
  \<open>gain_step / 100\<close> plus \<open>2^-23\<close>, the rounding of the step and of the sum.
\<close>

theorem gain_in_range_one_adjustment_per_cycle:
  assumes "2 \<le> gain_step args" and "gain_step args \<le> 10"
  shows "GAIN_MIN \<le> m_gain (run mapRC2PWM ins (Task_new args))
       \<and> m_gain (run mapRC2PWM ins (Task_new args)) \<le> GAIN_MAX
       \<and> m_gain (onRemoteActions mapRC2PWM tup (run mapRC2PWM ins (Task_new args))) =
           (if tl_get_int tup ''GainUP'' 0 = 1 then
              min (binary32 (m_gain (run mapRC2PWM ins (Task_new args))
                     + binary32 (float_of_int (gain_step args) / 100))) GAIN_MAX
            else if tl_get_int tup ''GainDown'' 0 = 1 then
              max (binary32 (m_gain (run mapRC2PWM ins (Task_new args))
                     - binary32 (float_of_int (gain_step args) / 100))) GAIN_MIN
            else m_gain (run mapRC2PWM ins (Task_new args)))
       \<and> \<bar>m_gain (onRemoteActions mapRC2PWM tup (run mapRC2PWM ins (Task_new args)))
            - m_gain (run mapRC2PWM ins (Task_new args))\<bar>
           \<le> real_of_int (gain_step args) / 100 + 1 / 2 ^ 23"
proof -
  let ?t = "run mapRC2PWM ins (Task_new args)"
  have "2 \<le> gain_step (m_args (Task_new args)) \<and> gain_step (m_args (Task_new args)) \<le> 10
        \<and> GAIN_MIN \<le> m_gain (Task_new args) \<and> m_gain (Task_new args) \<le> GAIN_MAX"
    using assms by (simp add: initial_gain GAIN_MIN_value GAIN_MAX_def) (simp add: Task_new_def)
  from run_gain_range[OF this, of mapRC2PWM ins]
  have inv: "gain_step (m_args ?t) = gain_step args" "GAIN_MIN \<le> m_gain ?t" "m_gain ?t \<le> GAIN_MAX"
    by (simp_all add: Task_new_def)
  have s: "2 \<le> gain_step (m_args ?t)" "gain_step (m_args ?t) \<le> 10"
    using assms inv(1) by simp_all
  show ?thesis
    using gain_buttons_range[OF s inv(2,3), of tup] inv
    by (simp add: onRemoteActions_gain gain_buttons_m_gain)
qed

text \<open>
  Claim C6 as stated fails in its step bound: the first \<open>GainUP\<close> event with the
  default step 10 takes the gain from the \<open>float\<close> 0.2 to the \<open>float\<close> 0.3,
  which is a change of 0.10000000894..., more than \<open>10 / 100\<close> and more than the
  \<open>float\<close> the code adds.
\<close>

theorem gain_step_exceeded_by_rounding:
  "m_gain (Task_new default_args) = 13421773 / 67108864
   \<and> m_gain (onRemoteActions sample_mapper (press [''GainUP'']) (Task_new default_args))
       = 5033165 / 16777216
   \<and> float_of_int (gain_step (m_args (Task_new default_args))) / 100
       < m_gain (onRemoteActions sample_mapper (press [''GainUP'']) (Task_new default_args))
         - m_gain (Task_new default_args)
   \<and> binary32 (float_of_int (gain_step (m_args (Task_new default_args))) / 100)
       < m_gain (onRemoteActions sample_mapper (press [''GainUP'']) (Task_new default_args))
         - m_gain (Task_new default_args)"
  by code_simp

text \<open>
  Two events, the second with both buttons set, raise the gain twice, to the
  \<open>float\<close> 0.4; a \<open>GainDown\<close> event then lowers it to the \<open>float\<close> 0.3.
\<close>

theorem gain_in_range_one_adjustment_per_cycle_witness:
  "2 \<le> gain_step default_args \<and> gain_step default_args \<le> 10
   \<and> m_gain (run sample_mapper [RemoteActions (press [''GainUP'']),
        RemoteActions (press [''GainDown'', ''GainUP''])] (Task_new default_args))
       = 13421773 / 33554432
   \<and> GAIN_MIN \<le> 13421773 / 33554432 \<and> 13421773 / 33554432 \<le> GAIN_MAX
   \<and> m_gain (onRemoteActions sample_mapper (press [''GainDown''])
        (run sample_mapper [RemoteActions (press [''GainUP'']),
           RemoteActions (press [''GainDown'', ''GainUP''])] (Task_new default_args)))
       = 5033165 / 16777216
   \<and> \<bar>5033165 / 16777216 - 13421773 / 33554432\<bar> \<le> (10 / 100 + 1 / 2 ^ 23 :: real)"
proof -
  have h: "2 \<le> gain_step default_args" "gain_step default_args \<le> 10"
    by (simp_all add: default_args_def)
  have v: "m_gain (run sample_mapper [RemoteActions (press [''GainUP'']),
        RemoteActions (press [''GainDown'', ''GainUP''])] (Task_new default_args))
       = 13421773 / 33554432"
    by code_simp
  have w: "m_gain (onRemoteActions sample_mapper (press [''GainDown''])
        (run sample_mapper [RemoteActions (press [''GainUP'']),
           RemoteActions (press [''GainDown'', ''GainUP''])] (Task_new default_args)))
       = 5033165 / 16777216"
    by code_simp
  have s: "real_of_int (gain_step default_args) = 10"
    by (simp add: default_args_def)
  show ?thesis
    using gain_in_range_one_adjustment_per_cycle[OF h, of sample_mapper
        "[RemoteActions (press [''GainUP'']), RemoteActions (press [''GainDown'', ''GainUP''])]"
        "press [''GainDown'']"] h
    unfolding v w s by simp
qed

end
